theory Spec2Isabelle
  imports Complex_Main "HOL-Library.Sublist"
begin

section \<open>Common data\<close>

text \<open>
  Python \<open>bytes\<close> are lists of 8-bit characters; a header list is an ordered list of
  (name, value) pairs; an address is a (host, port) pair; \<open>time.monotonic()\<close> is a
  reading of the environment and is passed to the operations that read it.
\<close>

type_synonym bytes = "char list"
type_synonym headers = "(bytes \<times> bytes) list"
type_synonym address = "string \<times> int"
type_synonym time = real

text \<open>
  Modelled from the spec: \<open>events/_events.py\<close> is missing (only the names imported by
  \<open>events/__init__.py\<close> are there). The variants and their fields are the ones of the
  spec's data model; \<open>StreamReset\<close> and \<open>StreamEvent\<close> are base classes without
  instances of their own.
\<close>

datatype event =
    HandshakeCompleted "string option"
  | HeadersReceived int headers bool
  | DataReceived int bytes bool
  | StreamResetReceived int int
  | StreamResetSent int int
  | GoawayReceived int int
  | ConnectionTerminated int "string option"

text \<open>
  The exceptions that cross the adapters. \<open>ProtocolError\<close> carries the engine's
  \<open>error_code\<close> and the text \<open>str(e)\<close>; \<open>EngineError\<close> is any other exception raised
  by a wrapped engine.
\<close>

datatype exn =
    ProtocolError int string
  | EngineError string
  | AssertionError
  | ValueError string

section \<open>The wrapped HTTP/2 engine\<close>

text \<open>
  The h2 library is an external collaborator. Its notifications (\<open>h2.events\<close>) are the
  ones \<open>_map_events\<close> tests for; \<open>stream_ended\<close> is an optional event, of which only
  \<open>is not None\<close> is read. \<open>H2OtherEvent\<close> is every notification no branch matches.
\<close>

datatype h2_event =
    H2RequestReceived int headers "unit option"
  | H2ResponseReceived int headers "unit option"
  | H2TrailersReceived int headers "unit option"
  | H2DataReceived int bytes int "unit option"
  | H2StreamReset int int
  | H2ConnectionTerminated int int
  | H2SettingsAcknowledged
  | H2OtherEvent

text \<open>
  The engine object is opaque: its state is the history of the calls made on it, and
  what a call returns or raises is a function of the history before it and of the
  arguments. The adapter appends every call it makes to the history.
\<close>

datatype h2_call =
    H2Connection bool bool bool bool bool
  | InitiateConnection
  | GetNextAvailableStreamId
  | CloseConnection int
  | SendHeaders int headers bool
  | SendData int bytes bool
  | ResetStream int int
  | AcknowledgeReceivedData int int
  | ReceiveData bytes
  | DataToSend

record h2_engine =
  on_initiate_connection :: "h2_call list \<Rightarrow> exn option"
  on_get_next_available_stream_id :: "h2_call list \<Rightarrow> exn + int"
  on_close_connection :: "h2_call list \<Rightarrow> int \<Rightarrow> exn option"
  on_send_headers :: "h2_call list \<Rightarrow> int \<Rightarrow> headers \<Rightarrow> bool \<Rightarrow> exn option"
  on_send_data :: "h2_call list \<Rightarrow> int \<Rightarrow> bytes \<Rightarrow> bool \<Rightarrow> exn option"
  on_reset_stream :: "h2_call list \<Rightarrow> int \<Rightarrow> int \<Rightarrow> exn option"
  on_acknowledge_received_data :: "h2_call list \<Rightarrow> int \<Rightarrow> int \<Rightarrow> exn option"
  on_receive_data :: "h2_call list \<Rightarrow> bytes \<Rightarrow> exn + h2_event list"
  on_data_to_send :: "h2_call list \<Rightarrow> exn + bytes"

section \<open>HTTP2ProtocolHyperImpl (protocols/http2/_h2.py)\<close>

record h2_adapter =
  h2_connection :: "h2_call list"
  h2_events :: "event list"
  h2_terminated :: bool

text \<open>
  A method returns its result together with the adapter after the call: an exception
  leaves the object as it was mutated up to the raise.
\<close>

definition h2_call_engine :: "h2_adapter \<Rightarrow> h2_call \<Rightarrow> h2_adapter" where
  "h2_call_engine s c = s\<lparr>h2_connection := h2_connection s @ [c]\<rparr>"

definition h2_init :: "h2_engine \<Rightarrow> bool \<Rightarrow> bool \<Rightarrow> bool \<Rightarrow> bool \<Rightarrow> exn + h2_adapter" where
  "h2_init eng validate_outbound_headers validate_inbound_headers
       normalize_outbound_headers normalize_inbound_headers =
     (let conn = [H2Connection True validate_outbound_headers normalize_outbound_headers
                    validate_inbound_headers normalize_inbound_headers] in
      case on_initiate_connection eng conn of
        Some x \<Rightarrow> Inl x
      | None \<Rightarrow> Inr \<lparr>h2_connection = conn @ [InitiateConnection],
                      h2_events = [], h2_terminated = False\<rparr>)"

definition h2_is_available :: "h2_adapter \<Rightarrow> bool" where
  "h2_is_available s = (\<not> h2_terminated s)"

definition h2_has_expired :: "h2_adapter \<Rightarrow> bool" where
  "h2_has_expired s = h2_terminated s"






definition h2_next_event :: "h2_adapter \<Rightarrow> event option \<times> h2_adapter" where
  "h2_next_event s =
     (case h2_events s of
        [] \<Rightarrow> (None, s)
      | e # es \<Rightarrow> (Some e, s\<lparr>h2_events := es\<rparr>))"

definition h2_has_pending_event :: "h2_adapter \<Rightarrow> bool" where
  "h2_has_pending_event s = (length (h2_events s) > 0)"

text \<open>
  \<open>_map_events\<close> is a generator that \<open>bytes_received\<close> hands to \<open>deque.extend\<close>: every
  event is appended to the queue as soon as it is yielded, before the generator resumes.
  \<open>h2_map_event\<close> is the body of the generator's loop for one native notification (the
  call it makes on the engine, then the events it yields); \<open>h2_map_events\<close> is the loop
  run by \<open>extend\<close>. An exception of the engine leaves the loop with the queue as far as
  it was extended.
\<close>

definition h2_map_event :: "h2_engine \<Rightarrow> h2_adapter \<Rightarrow> h2_event \<Rightarrow> (exn + event list) \<times> h2_adapter" where
  "h2_map_event eng s e =
     (case e of
        H2RequestReceived stream_id hs stream_ended \<Rightarrow>
          (Inr [HeadersReceived stream_id hs (stream_ended \<noteq> None)], s)
      | H2ResponseReceived stream_id hs stream_ended \<Rightarrow>
          (Inr [HeadersReceived stream_id hs (stream_ended \<noteq> None)], s)
      | H2TrailersReceived stream_id hs stream_ended \<Rightarrow>
          (Inr [HeadersReceived stream_id hs (stream_ended \<noteq> None)], s)
      | H2DataReceived stream_id data flow_controlled_length stream_ended \<Rightarrow>
          (let s1 = h2_call_engine s (AcknowledgeReceivedData flow_controlled_length stream_id) in
           case on_acknowledge_received_data eng (h2_connection s)
                  flow_controlled_length stream_id of
             Some x \<Rightarrow> (Inl x, s1)
           | None \<Rightarrow> (Inr [DataReceived stream_id data (stream_ended \<noteq> None)], s1))
      | H2StreamReset stream_id error_code \<Rightarrow>
          (Inr [StreamResetReceived stream_id error_code], s)
      | H2ConnectionTerminated error_code last_stream_id \<Rightarrow>
          (Inr [GoawayReceived last_stream_id error_code], s)
      | H2SettingsAcknowledged \<Rightarrow>
          (Inr [HandshakeCompleted (Some ''h2'')], s)
      | H2OtherEvent \<Rightarrow> (Inr [], s))"

fun h2_map_events :: "h2_engine \<Rightarrow> h2_adapter \<Rightarrow> h2_event list \<Rightarrow> exn option \<times> h2_adapter" where
  "h2_map_events eng s [] = (None, s)"
| "h2_map_events eng s (e # es) =
     (case h2_map_event eng s e of
        (Inl x, s1) \<Rightarrow> (Some x, s1)
      | (Inr evs, s1) \<Rightarrow> h2_map_events eng (s1\<lparr>h2_events := h2_events s1 @ evs\<rparr>) es)"

definition h2_connection_terminated :: "h2_adapter \<Rightarrow> int \<Rightarrow> string option \<Rightarrow> h2_adapter" where
  "h2_connection_terminated s error_code message =
     (if h2_terminated s then s
      else s\<lparr>h2_terminated := True,
              h2_events := h2_events s @ [ConnectionTerminated error_code message]\<rparr>)"

definition h2_connection_lost :: "h2_adapter \<Rightarrow> h2_adapter" where
  "h2_connection_lost s = h2_connection_terminated s 0 None"

definition h2_eof_received :: "h2_adapter \<Rightarrow> h2_adapter" where
  "h2_eof_received s = h2_connection_terminated s 0 None"

definition h2_bytes_received :: "h2_engine \<Rightarrow> h2_adapter \<Rightarrow> bytes \<Rightarrow> exn option \<times> h2_adapter" where
  "h2_bytes_received eng s data =
     (if data = [] then (None, s)
      else
        let s1 = h2_call_engine s (ReceiveData data) in
        case on_receive_data eng (h2_connection s) data of
          Inl (ProtocolError error_code message) \<Rightarrow>
            (None, h2_connection_terminated s1 error_code (Some message))
        | Inl x \<Rightarrow> (Some x, s1)
        | Inr native_events \<Rightarrow> h2_map_events eng s1 native_events)"


section \<open>The wrapped QUIC engine and HTTP/3 layer\<close>

text \<open>
  The notifications of the QUIC engine (\<open>quic.events\<close>) and of the HTTP/3 layer
  (\<open>h3.events\<close>) that the mapping functions test for; \<open>QuicOtherEvent\<close> and
  \<open>H3OtherEvent\<close> are the notifications no branch matches.
\<close>

datatype quic_event =
    ConnectionIdIssued bytes
  | ConnectionIdRetired bytes
  | QuicHandshakeCompleted "string option"
  | QuicConnectionTerminated int string
  | QuicStreamReset int int
  | QuicOtherEvent

datatype h3_event =
    H3HeadersReceived int headers bool
  | H3DataReceived int bytes bool
  | H3OtherEvent

record quic_configuration =
  is_client :: bool
  verify_required :: bool
  cafile :: "string option"
  capath :: "string option"
  cadata :: "bytes option"
  alpn_protocols :: "string list"
  session_ticket :: "bytes option"
  server_name :: "string option"
  cert_chain :: "(string \<times> string option \<times> string option) option"

text \<open>
  \<open>QuicConnection\<close> and the \<open>H3Connection\<close> built on it share their state, so one
  history holds the calls made on either object.
\<close>

datatype quic_call =
    QuicConnection quic_configuration
  | NewH3Connection
  | Connect "address option" time
  | QuicGetNextAvailableStreamId
  | Close int int
  | H3SendHeaders int headers bool
  | H3SendData int bytes bool
  | QuicResetStream int int
  | GetTimer
  | HandleTimer time
  | ReceiveDatagram bytes "address option" time
  | DatagramsToSend time
  | NextEvent
  | HandleEvent quic_event

record quic_engine =
  on_load_cert_chain ::
    "quic_configuration \<Rightarrow> string \<Rightarrow> string option \<Rightarrow> string option \<Rightarrow> exn option"
  on_load_verify_locations :: "quic_configuration \<Rightarrow> string option \<Rightarrow> exn option"
  on_quic_connection :: "quic_configuration \<Rightarrow> exn option"
  on_connect :: "quic_call list \<Rightarrow> address option \<Rightarrow> time \<Rightarrow> exn option"
  on_h3_connection :: "quic_call list \<Rightarrow> exn option"
  on_quic_get_next_available_stream_id :: "quic_call list \<Rightarrow> exn + int"
  on_close :: "quic_call list \<Rightarrow> int \<Rightarrow> int \<Rightarrow> exn option"
  on_h3_send_headers :: "quic_call list \<Rightarrow> int \<Rightarrow> headers \<Rightarrow> bool \<Rightarrow> exn option"
  on_h3_send_data :: "quic_call list \<Rightarrow> int \<Rightarrow> bytes \<Rightarrow> bool \<Rightarrow> exn option"
  on_quic_reset_stream :: "quic_call list \<Rightarrow> int \<Rightarrow> int \<Rightarrow> exn option"
  on_get_timer :: "quic_call list \<Rightarrow> exn + time option"
  on_handle_timer :: "quic_call list \<Rightarrow> time \<Rightarrow> exn option"
  on_receive_datagram :: "quic_call list \<Rightarrow> bytes \<Rightarrow> address option \<Rightarrow> time \<Rightarrow> exn option"
  on_datagrams_to_send :: "quic_call list \<Rightarrow> time \<Rightarrow> exn + (bytes \<times> address) list"
  on_next_event :: "quic_call list \<Rightarrow> exn + quic_event option"
  on_handle_event :: "quic_call list \<Rightarrow> quic_event \<Rightarrow> exn + h3_event list"
  close_event :: "quic_call list \<Rightarrow> quic_event option"
  tls_session_ticket :: "quic_call list \<Rightarrow> bytes option"

section \<open>QuicTLSConfig (_configuration.py)\<close>

record quic_tls_config =
  tls_insecure :: bool
  tls_cafile :: "string option"
  tls_capath :: "string option"
  tls_cadata :: "bytes option"
  tls_certfile :: "string option"
  tls_keyfile :: "string option"
  tls_keypassword :: "string option"
  tls_session_ticket_field :: "bytes option"

definition clone :: "quic_tls_config \<Rightarrow> quic_tls_config" where
  "clone c = c"

section \<open>The HTTP/3 adapters (protocols/http3/_aioquic.py and _protocol.py)\<close>

text \<open>
  \<open>HTTP3ProtocolAioQuicImpl\<close> (in \<open>_aioquic.py\<close>) and \<open>HTTP3ProtocolImpl\<close> (in
  \<open>_protocol.py\<close>) have the same fields, but for \<open>_now\<close>, which only the second has
  (it stays \<open>None\<close> in the first). The methods whose text is the same in both classes
  are embedded once, with the prefix \<open>h3_\<close>; \<open>__init__\<close>, \<open>clock\<close>, \<open>_fetch_events\<close>
  and \<open>bytes_received\<close> differ and are embedded for each class, with the prefixes
  \<open>aioquic_\<close> and \<open>impl_\<close>.
\<close>

record h3_adapter =
  h3_configuration :: quic_configuration
  h3_quic :: "quic_call list"
  h3_connection_ids :: "bytes set"
  h3_remote_address :: "address option"
  h3_event_buffer :: "event list"
  h3_http :: "unit option"
  h3_terminated :: bool
  h3_now :: "time option"

definition h3_call_engine :: "h3_adapter \<Rightarrow> quic_call \<Rightarrow> h3_adapter" where
  "h3_call_engine s c = s\<lparr>h3_quic := h3_quic s @ [c]\<rparr>"



definition h3_is_available :: "h3_adapter \<Rightarrow> bool" where
  "h3_is_available s = (\<not> h3_terminated s)"

definition h3_has_expired :: "h3_adapter \<Rightarrow> bool" where
  "h3_has_expired s = h3_terminated s"

definition h3_session_ticket :: "quic_engine \<Rightarrow> h3_adapter \<Rightarrow> bytes option" where
  "h3_session_ticket eng s = tls_session_ticket eng (h3_quic s)"


definition h3_submit_close :: "quic_engine \<Rightarrow> h3_adapter \<Rightarrow> int \<Rightarrow> exn option \<times> h3_adapter" where
  "h3_submit_close eng s error_code =
     (let frame_type = (if error_code \<noteq> 0 then 0x1D else 0x1C) in
      (on_close eng (h3_quic s) error_code frame_type,
       h3_call_engine s (Close error_code frame_type)))"





definition h3_has_pending_event :: "h3_adapter \<Rightarrow> bool" where
  "h3_has_pending_event s = (length (h3_event_buffer s) > 0)"

text \<open>The property returns the set as a list in no specified order: the model keeps the set.\<close>

definition connection_ids :: "h3_adapter \<Rightarrow> bytes set" where
  "connection_ids s = h3_connection_ids s"


definition h3_connection_lost :: "h3_adapter \<Rightarrow> h3_adapter" where
  "h3_connection_lost s =
     s\<lparr>h3_terminated := True,
       h3_event_buffer := h3_event_buffer s @ [ConnectionTerminated 0 None]\<rparr>"

text \<open>
  \<open>_map_quic_event\<close> is a generator consumed at once by \<open>+=\<close> on the event buffer: the
  model returns the events it yields and the adapter as it leaves it. \<open>set.remove\<close>
  raises \<open>KeyError\<close> on an absent id, which the code catches and ignores.
\<close>

definition h3_map_quic_event :: "h3_adapter \<Rightarrow> quic_event \<Rightarrow> event list \<times> h3_adapter" where
  "h3_map_quic_event s quic_event =
     (let s1 = (case quic_event of
                  ConnectionIdIssued connection_id \<Rightarrow>
                    s\<lparr>h3_connection_ids := insert connection_id (h3_connection_ids s)\<rparr>
                | ConnectionIdRetired connection_id \<Rightarrow>
                    if connection_id \<in> h3_connection_ids s
                    then s\<lparr>h3_connection_ids := h3_connection_ids s - {connection_id}\<rparr>
                    else s
                | _ \<Rightarrow> s)
      in case quic_event of
           QuicHandshakeCompleted alpn_protocol \<Rightarrow> ([HandshakeCompleted alpn_protocol], s1)
         | QuicConnectionTerminated error_code reason_phrase \<Rightarrow>
             ([ConnectionTerminated error_code (Some reason_phrase)], s1\<lparr>h3_terminated := True\<rparr>)
         | QuicStreamReset stream_id error_code \<Rightarrow>
             ([StreamResetReceived stream_id error_code], s1)
         | _ \<Rightarrow> ([], s1))"

definition h3_map_h3_event :: "h3_event \<Rightarrow> event list" where
  "h3_map_h3_event h3_event =
     (case h3_event of
        H3HeadersReceived stream_id hs stream_ended \<Rightarrow> [HeadersReceived stream_id hs stream_ended]
      | H3DataReceived stream_id data stream_ended \<Rightarrow> [DataReceived stream_id data stream_ended]
      | H3OtherEvent \<Rightarrow> [])"

definition h3_extend :: "h3_adapter \<Rightarrow> event list \<Rightarrow> h3_adapter" where
  "h3_extend s evs = s\<lparr>h3_event_buffer := h3_event_buffer s @ evs\<rparr>"

text \<open>
  The loop \<open>for quic_event in iter(self._quic.next_event, None)\<close> of \<open>_fetch_events\<close>,
  the same in both classes. It runs until the engine answers \<open>None\<close>, which is up to
  the engine: the result is \<open>None\<close> when the loop never ends.
\<close>

partial_function (option) h3_fetch_loop ::
  "quic_engine \<Rightarrow> h3_adapter \<Rightarrow> (exn option \<times> h3_adapter) option" where
  "h3_fetch_loop eng s =
     (case on_next_event eng (h3_quic s) of
        Inl x \<Rightarrow> Some (Some x, h3_call_engine s NextEvent)
      | Inr None \<Rightarrow> Some (None, h3_call_engine s NextEvent)
      | Inr (Some quic_event) \<Rightarrow>
          (case h3_map_quic_event (h3_call_engine s NextEvent) quic_event of
             (evs, s1) \<Rightarrow>
               (case on_handle_event eng (h3_quic s1) quic_event of
                  Inl x \<Rightarrow> Some (Some x, h3_call_engine (h3_extend s1 evs) (HandleEvent quic_event))
                | Inr h3_events \<Rightarrow>
                    h3_fetch_loop eng
                      (h3_extend (h3_call_engine (h3_extend s1 evs) (HandleEvent quic_event))
                         (concat (map h3_map_h3_event h3_events))))))"

declare h3_fetch_loop.simps [code]

definition impl_fetch_events :: "quic_engine \<Rightarrow> h3_adapter \<Rightarrow> (exn option \<times> h3_adapter) option" where
  "impl_fetch_events eng s =
     (if h3_http s = None then Some (Some AssertionError, s)
      else h3_fetch_loop eng s)"

text \<open>
  \<open>close_event\<close> reads the engine's private attribute \<open>_close_event\<close>; it is \<open>None\<close>
  both when the attribute is absent and when it holds \<open>None\<close>.
\<close>

definition aioquic_fetch_events :: "quic_engine \<Rightarrow> h3_adapter \<Rightarrow> (exn option \<times> h3_adapter) option" where
  "aioquic_fetch_events eng s =
     (if h3_http s = None then Some (Some AssertionError, s)
      else case h3_fetch_loop eng s of
             None \<Rightarrow> None
           | Some (Some x, s1) \<Rightarrow> Some (Some x, s1)
           | Some (None, s1) \<Rightarrow>
               (case close_event eng (h3_quic s1) of
                  None \<Rightarrow> Some (None, s1)
                | Some ce \<Rightarrow>
                    (case h3_map_quic_event s1 ce of
                       (evs, s2) \<Rightarrow> Some (None, h3_extend s2 evs))))"




text \<open>\<open>t\<close> is the reading of \<open>monotonic()\<close> taken by the call.\<close>

definition h3_bytes_received_body ::
  "(quic_engine \<Rightarrow> h3_adapter \<Rightarrow> (exn option \<times> h3_adapter) option) \<Rightarrow>
   quic_engine \<Rightarrow> h3_adapter \<Rightarrow> bytes \<Rightarrow> time \<Rightarrow> (exn option \<times> h3_adapter) option" where
  "h3_bytes_received_body fetch_events eng s data t =
     (let s1 = h3_call_engine s (ReceiveDatagram data (h3_remote_address s) t) in
      case on_receive_datagram eng (h3_quic s) data (h3_remote_address s) t of
        Some x \<Rightarrow> Some (Some x, s1)
      | None \<Rightarrow> fetch_events eng s1)"

definition aioquic_bytes_received ::
  "quic_engine \<Rightarrow> h3_adapter \<Rightarrow> bytes \<Rightarrow> time \<Rightarrow> (exn option \<times> h3_adapter) option" where
  "aioquic_bytes_received eng s data t = h3_bytes_received_body aioquic_fetch_events eng s data t"

definition impl_bytes_received ::
  "quic_engine \<Rightarrow> h3_adapter \<Rightarrow> bytes \<Rightarrow> time \<Rightarrow> (exn option \<times> h3_adapter) option" where
  "impl_bytes_received eng s data t = h3_bytes_received_body impl_fetch_events eng s data t"

definition h3_bytes_to_send ::
  "quic_engine \<Rightarrow> h3_adapter \<Rightarrow> time \<Rightarrow> (exn + bytes) \<times> h3_adapter" where
  "h3_bytes_to_send eng s now =
     (let (r, s1) =
        (if h3_http s = None then
           (let sa = h3_call_engine s (Connect (h3_remote_address s) now) in
            case on_connect eng (h3_quic s) (h3_remote_address s) now of
              Some x \<Rightarrow> (Some x, sa)
            | None \<Rightarrow>
                (case on_h3_connection eng (h3_quic sa) of
                   Some x \<Rightarrow> (Some x, h3_call_engine sa NewH3Connection)
                 | None \<Rightarrow> (None, (h3_call_engine sa NewH3Connection)\<lparr>h3_http := Some ()\<rparr>)))
         else (None, s))
      in case r of
           Some x \<Rightarrow> (Inl x, s1)
         | None \<Rightarrow>
             (case on_datagrams_to_send eng (h3_quic s1) now of
                Inl x \<Rightarrow> (Inl x, h3_call_engine s1 (DatagramsToSend now))
              | Inr ds \<Rightarrow> (Inr (concat (map fst ds)), h3_call_engine s1 (DatagramsToSend now))))"

section \<open>Operations as values\<close>







definition is_termination :: "event \<Rightarrow> bool" where
  "is_termination e = (case e of ConnectionTerminated _ _ \<Rightarrow> True | _ \<Rightarrow> False)"

section \<open>Engines for concrete runs\<close>

text \<open>
  An HTTP/2 engine that never raises but where told to: what \<open>receive_data\<close> answers is
  a function of the bytes it is given.
\<close>

definition h2_scripted :: "(bytes \<Rightarrow> exn + h2_event list) \<Rightarrow> h2_engine" where
  "h2_scripted f =
     \<lparr>on_initiate_connection = (\<lambda>h. None),
      on_get_next_available_stream_id = (\<lambda>h. Inr 1),
      on_close_connection = (\<lambda>h c. None),
      on_send_headers = (\<lambda>h i hs e. None),
      on_send_data = (\<lambda>h i d e. None),
      on_reset_stream = (\<lambda>h i c. None),
      on_acknowledge_received_data = (\<lambda>h n i. None),
      on_receive_data = (\<lambda>h d. f d),
      on_data_to_send = (\<lambda>h. Inr [])\<rparr>"

text \<open>
  A QUIC engine that has one notification (or none) for each datagram: \<open>next_event\<close>
  answers \<open>g d\<close> right after \<open>receive_datagram(d)\<close> and \<open>None\<close> otherwise.
  \<open>receive_datagram\<close> raises what \<open>f\<close> says, and the private close event is \<open>ce\<close>.
  As the adapters give \<open>QuicConnection\<close> nothing but the configuration, the engine
  builds connections for clients only: for a server configuration its constructor raises.
\<close>

definition quic_scripted ::
  "(bytes \<Rightarrow> exn option) \<Rightarrow> (bytes \<Rightarrow> quic_event option) \<Rightarrow> quic_event option \<Rightarrow> quic_engine" where
  "quic_scripted f g ce =
     \<lparr>on_load_cert_chain = (\<lambda>c certfile keyfile password. None),
      on_load_verify_locations = (\<lambda>c f. None),
      on_quic_connection = (\<lambda>c. if is_client c then None else Some AssertionError),
      on_connect = (\<lambda>h a t. None),
      on_h3_connection = (\<lambda>h. None),
      on_quic_get_next_available_stream_id = (\<lambda>h. Inr 0),
      on_close = (\<lambda>h c ft. None),
      on_h3_send_headers = (\<lambda>h i hs e. None),
      on_h3_send_data = (\<lambda>h i d e. None),
      on_quic_reset_stream = (\<lambda>h i c. None),
      on_get_timer = (\<lambda>h. Inr None),
      on_handle_timer = (\<lambda>h t. None),
      on_receive_datagram = (\<lambda>h d a t. f d),
      on_datagrams_to_send = (\<lambda>h t. Inr []),
      on_next_event = (\<lambda>h. case rev h of
                               ReceiveDatagram d a t # _ \<Rightarrow> Inr (g d)
                             | _ \<Rightarrow> Inr None),
      on_handle_event = (\<lambda>h e. Inr []),
      close_event = (\<lambda>h. ce),
      tls_session_ticket = (\<lambda>h. None)\<rparr>"

definition h2_fresh :: h2_adapter where
  "h2_fresh =
     \<lparr>h2_connection = [H2Connection True False True False True, InitiateConnection],
      h2_events = [], h2_terminated = False\<rparr>"

definition client_configuration :: quic_configuration where
  "client_configuration =
     \<lparr>is_client = True, verify_required = True, cafile = None, capath = None,
      cadata = None, alpn_protocols = [''h3''], session_ticket = None,
      server_name = Some ''example.org'', cert_chain = None\<rparr>"

definition h3_fresh :: h3_adapter where
  "h3_fresh =
     \<lparr>h3_configuration = client_configuration,
      h3_quic = [QuicConnection client_configuration],
      h3_connection_ids = {},
      h3_remote_address = Some (''example.org'', 443),
      h3_event_buffer = [],
      h3_http = None,
      h3_terminated = False,
      h3_now = None\<rparr>"

text \<open>The fresh client adapter after its first \<open>bytes_to_send\<close>, taken at time 0.\<close>

definition h3_connected :: h3_adapter where
  "h3_connected =
     snd (h3_bytes_to_send (quic_scripted (\<lambda>d. None) (\<lambda>d. None) None) h3_fresh 0)"

section \<open>Observers\<close>

text \<open>
  What a list of native notifications and a queue show about flow control: the
  \<open>(flow_controlled_length, stream_id)\<close> pairs of the data notifications, and the
  stream ids of the \<open>DataReceived\<close> events, each in order.
\<close>

definition data_notifications :: "h2_event list \<Rightarrow> (int \<times> int) list" where
  "data_notifications es =
     concat (map (\<lambda>e. case e of H2DataReceived i d n se \<Rightarrow> [(n, i)] | _ \<Rightarrow> []) es)"









text \<open>
  The adapter after \<open>self._event_buffer += self._map_quic_event(quic_event)\<close> for each
  notification of a list in turn, which is what the loop of \<open>_fetch_events\<close> does with
  the notifications the engine hands out.
\<close>

fun h3_map_quic_events :: "h3_adapter \<Rightarrow> quic_event list \<Rightarrow> h3_adapter" where
  "h3_map_quic_events s [] = s"
| "h3_map_quic_events s (e # es) =
     (case h3_map_quic_event s e of (evs, s1) \<Rightarrow> h3_map_quic_events (h3_extend s1 evs) es)"





section \<open>Properties of the HTTP/2 adapter\<close>

lemma data_notifications_Cons:
  "data_notifications (e # es) = data_notifications [e] @ data_notifications es"
  by (simp add: data_notifications_def)














section \<open>Properties of the HTTP/3 adapters\<close>

text \<open>
  C8. For every HTTP/3 adapter and every integer \<open>error_code\<close>,
  \<open>submit_close(error_code)\<close> closes the wrapped QUIC engine with frame type 0x1D when
  \<open>error_code\<close> is non-zero and with frame type 0x1C when it is zero, passing
  \<open>error_code\<close> through unchanged; nothing else of the adapter changes. The method has
  the same text in both classes.
\<close>

theorem h3_submit_close_frame_type:
  "(error_code \<noteq> 0 \<longrightarrow>
      h3_submit_close eng s error_code =
        (on_close eng (h3_quic s) error_code 0x1D,
         s\<lparr>h3_quic := h3_quic s @ [Close error_code 0x1D]\<rparr>)) \<and>
   (error_code = 0 \<longrightarrow>
      h3_submit_close eng s error_code =
        (on_close eng (h3_quic s) 0 0x1C,
         s\<lparr>h3_quic := h3_quic s @ [Close 0 0x1C]\<rparr>))"
  by (simp add: h3_submit_close_def h3_call_engine_def Let_def)

theorem h3_submit_close_frame_type_witness:
  "h3_quic (snd (h3_submit_close (quic_scripted (\<lambda>d. None) (\<lambda>d. None) None) h3_fresh 7)) =
     h3_quic h3_fresh @ [Close 7 0x1D] \<and>
   h3_quic (snd (h3_submit_close (quic_scripted (\<lambda>d. None) (\<lambda>d. None) None) h3_fresh 0)) =
     h3_quic h3_fresh @ [Close 0 0x1C]"
  using h3_submit_close_frame_type [of 7 "quic_scripted (\<lambda>d. None) (\<lambda>d. None) None" h3_fresh]
        h3_submit_close_frame_type [of 0 "quic_scripted (\<lambda>d. None) (\<lambda>d. None) None" h3_fresh]
  by simp

section \<open>Properties of all adapters\<close>

text \<open>
  C10. In every state of the HTTP/2 adapter and of both HTTP/3 adapters,
  \<open>is_available()\<close> returns exactly the negation of \<open>has_expired()\<close>: both read the
  terminated flag and nothing else, so an adapter is never available and expired at
  once, nor unavailable and unexpired. (The two HTTP/3 classes share the text of both
  methods.)
\<close>

theorem is_available_iff_not_has_expired:
  "h2_is_available s = (\<not> h2_has_expired s) \<and> h3_is_available t = (\<not> h3_has_expired t)"
  by (simp add: h2_is_available_def h2_has_expired_def h3_is_available_def h3_has_expired_def)

section \<open>Frame of the HTTP/3 event fetch\<close>












section \<open>Termination triggers, empty input and engine errors\<close>

lemma h2_connection_terminated_idem:
  "h2_terminated s \<Longrightarrow> h2_connection_terminated s error_code message = s"
  by (simp add: h2_connection_terminated_def)

lemma h2_transport_triggers_once:
  "h2_events (h2_connection_lost (h2_connection_lost s)) = h2_events (h2_connection_lost s) \<and>
   h2_events (h2_eof_received (h2_connection_lost s)) = h2_events (h2_connection_lost s) \<and>
   h2_events (h2_connection_lost (h2_eof_received s)) = h2_events (h2_eof_received s) \<and>
   h2_events (h2_eof_received (h2_eof_received s)) = h2_events (h2_eof_received s)"
  by (simp add: h2_connection_lost_def h2_eof_received_def h2_connection_terminated_def)

text \<open>
  C2. The claim: in every adapter, once a \<open>ConnectionTerminated\<close> event has been queued,
  a further transport-level termination trigger is a no-op, so that calling the trigger
  twice in a row leaves exactly one \<open>ConnectionTerminated\<close> event in the queue. The
  HTTP/2 adapter guards its trigger (\<open>h2_transport_triggers_once\<close>); \<open>connection_lost\<close>
  of the HTTP/3 adapters (the same text in both classes) has no guard, and two calls in
  a row queue two \<open>ConnectionTerminated\<close> events, in every state.
\<close>

theorem h3_connection_lost_twice:
  "h3_event_buffer (h3_connection_lost (h3_connection_lost s)) =
     h3_event_buffer s @ [ConnectionTerminated 0 None, ConnectionTerminated 0 None] \<and>
   length (filter is_termination (h3_event_buffer (h3_connection_lost (h3_connection_lost h3_fresh)))) = 2"
  by (simp add: h3_connection_lost_def h3_fresh_def is_termination_def)




text \<open>
  C3, as the code has it. For the HTTP/2 adapter, if the engine's \<open>receive_data\<close> raises
  a \<open>ProtocolError\<close>, \<open>bytes_received\<close> catches it and returns normally with the adapter
  terminated; it has queued one \<open>ConnectionTerminated\<close> event carrying that error's code
  and message, unless the adapter was terminated already, in which case the queue is as
  it was. The HTTP/3 adapters catch nothing: what the engine's \<open>receive_datagram\<close>
  raises reaches the caller, and the event buffer is as it was; what they turn into a
  \<open>ConnectionTerminated\<close> event carrying the engine's error code and reason is the
  engine's own connection-terminated notification.
\<close>

theorem protocol_error_while_receiving:
  "(data \<noteq> [] \<and> on_receive_data eng2 (h2_connection s) data = Inl (ProtocolError code msg) \<longrightarrow>
      fst (h2_bytes_received eng2 s data) = None \<and>
      h2_terminated (snd (h2_bytes_received eng2 s data)) \<and>
      h2_events (snd (h2_bytes_received eng2 s data)) =
        (if h2_terminated s then h2_events s
         else h2_events s @ [ConnectionTerminated code (Some msg)])) \<and>
   (on_receive_datagram eng (h3_quic t) datagram (h3_remote_address t) now = Some x \<longrightarrow>
      impl_bytes_received eng t datagram now =
        Some (Some x,
              t\<lparr>h3_quic := h3_quic t @ [ReceiveDatagram datagram (h3_remote_address t) now]\<rparr>) \<and>
      aioquic_bytes_received eng t datagram now =
        Some (Some x,
              t\<lparr>h3_quic := h3_quic t @ [ReceiveDatagram datagram (h3_remote_address t) now]\<rparr>)) \<and>
   h3_map_quic_event t (QuicConnectionTerminated code msg) =
     ([ConnectionTerminated code (Some msg)], t\<lparr>h3_terminated := True\<rparr>)"
  by (simp add: h2_bytes_received_def h2_connection_terminated_def h2_call_engine_def
        impl_bytes_received_def aioquic_bytes_received_def h3_bytes_received_body_def
        h3_call_engine_def h3_map_quic_event_def Let_def)

theorem protocol_error_while_receiving_counterexample:
  "map_option (\<lambda>y. (fst y, h3_event_buffer (snd y)))
     (aioquic_bytes_received
        (quic_scripted (\<lambda>d. Some (ProtocolError 1 ''malformed'')) (\<lambda>d. None) None)
        h3_connected ''datagram'' 1) =
   Some (Some (ProtocolError 1 ''malformed''), []) \<and>
   h2_bytes_received (h2_scripted (\<lambda>d. Inl (ProtocolError 1 ''malformed'')))
     (snd (h2_next_event (h2_connection_lost h2_fresh))) ''frame'' =
   (None, (snd (h2_next_event (h2_connection_lost h2_fresh)))
            \<lparr>h2_connection := h2_connection h2_fresh @ [ReceiveData ''frame'']\<rparr>) \<and>
   h2_events (snd (h2_next_event (h2_connection_lost h2_fresh))) = []"
  by code_simp

theorem protocol_error_while_receiving_witness:
  "h2_bytes_received (h2_scripted (\<lambda>d. Inl (ProtocolError 1 ''malformed''))) h2_fresh ''frame'' =
     (None, h2_fresh\<lparr>h2_connection := h2_connection h2_fresh @ [ReceiveData ''frame''],
                     h2_terminated := True,
                     h2_events := [ConnectionTerminated 1 (Some ''malformed'')]\<rparr>) \<and>
   impl_bytes_received
     (quic_scripted (\<lambda>d. Some (ProtocolError 1 ''malformed'')) (\<lambda>d. None) None)
     h3_fresh ''datagram'' 1 =
   Some (Some (ProtocolError 1 ''malformed''),
         h3_fresh\<lparr>h3_quic := h3_quic h3_fresh @
                     [ReceiveDatagram ''datagram'' (h3_remote_address h3_fresh) 1]\<rparr>)"
proof -
  let ?e2 = "h2_scripted (\<lambda>d. Inl (ProtocolError 1 ''malformed''))"
  let ?e3 = "quic_scripted (\<lambda>d. Some (ProtocolError 1 ''malformed'')) (\<lambda>d. None) None"
  have h1: "''frame'' \<noteq> [] \<and>
            on_receive_data ?e2 (h2_connection h2_fresh) ''frame'' =
              Inl (ProtocolError 1 ''malformed'')"
    by (simp add: h2_scripted_def)
  have h2: "on_receive_datagram ?e3 (h3_quic h3_fresh) ''datagram''
              (h3_remote_address h3_fresh) 1 = Some (ProtocolError 1 ''malformed'')"
    by (simp add: quic_scripted_def)
  from protocol_error_while_receiving
         [where data = "''frame''" and ?eng2.0 = ?e2 and s = h2_fresh and code = 1
            and msg = "''malformed''" and eng = ?e3 and t = h3_fresh
            and datagram = "''datagram''" and now = 1 and x = "ProtocolError 1 ''malformed''"]
       h1 h2
  show ?thesis
    by (simp add: h2_fresh_def h2_bytes_received_def h2_scripted_def Let_def
          h2_connection_terminated_def h2_call_engine_def)
qed

section \<open>Connection ids of the HTTP/3 adapters\<close>

lemma h3_map_quic_event_ids:
  "connection_ids (h3_extend (snd (h3_map_quic_event s e)) (fst (h3_map_quic_event s e))) =
     (case e of
        ConnectionIdIssued c \<Rightarrow> insert c (connection_ids s)
      | ConnectionIdRetired c \<Rightarrow> connection_ids s - {c}
      | _ \<Rightarrow> connection_ids s)"
  by (auto simp: h3_map_quic_event_def h3_extend_def connection_ids_def Let_def
        split: quic_event.splits)

lemma h3_map_quic_events_Cons:
  "h3_map_quic_events s (e # es) =
     h3_map_quic_events (h3_extend (snd (h3_map_quic_event s e)) (fst (h3_map_quic_event s e))) es"
  by (simp add: case_prod_beta)








section \<open>Initialisation of the HTTP/3 layer\<close>











section \<open>After termination\<close>













section \<open>The event fetch maps the engine's notifications in turn\<close>

lemma h3_map_quic_events_ids_cong:
  "connection_ids s = connection_ids s' \<Longrightarrow>
     connection_ids (h3_map_quic_events s es) = connection_ids (h3_map_quic_events s' es)"
proof (induction es arbitrary: s s')
  case Nil
  then show ?case by simp
next
  case (Cons e es)
  let ?n = "\<lambda>s. h3_extend (snd (h3_map_quic_event s e)) (fst (h3_map_quic_event s e))"
  from Cons.prems have "connection_ids (?n s) = connection_ids (?n s')"
    by (simp only: h3_map_quic_event_ids)
  from Cons.IH[OF this] show ?case
    by (simp only: h3_map_quic_events_Cons)
qed

lemma connection_ids_call_engine [simp]:
  "connection_ids (h3_call_engine s c) = connection_ids s"
  by (simp add: connection_ids_def h3_call_engine_def)

lemma connection_ids_extend [simp]:
  "connection_ids (h3_extend s evs) = connection_ids s"
  by (simp add: connection_ids_def h3_extend_def)

text \<open>
  The connection ids after the loop of \<open>_fetch_events\<close> are those after mapping, in
  turn, the notifications that the engine handed out.
\<close>

lemma h3_fetch_loop_connection_ids:
  assumes "h3_fetch_loop eng0 s0 = Some y0"
  shows "\<exists>es. connection_ids (snd y0) = connection_ids (h3_map_quic_events s0 es)"
proof (rule h3_fetch_loop.raw_induct
         [where P = "\<lambda>e s y. \<exists>es. connection_ids (snd y) =
                                   connection_ids (h3_map_quic_events s es)",
          OF _ assms],
       goal_cases)
  case (1 loop eng s y)
  note IH = 1(1) and step = 1(2)
  have nil: "connection_ids (h3_call_engine s NextEvent) =
             connection_ids (h3_map_quic_events s [])"
    by simp
  show ?case
  proof (cases "on_next_event eng (h3_quic s)")
    case (Inl x)
    with step have "snd y = h3_call_engine s NextEvent" by auto
    with nil show ?thesis by metis
  next
    case (Inr oe)
    show ?thesis
    proof (cases oe)
      case None
      with Inr step have "snd y = h3_call_engine s NextEvent" by auto
      with nil show ?thesis by metis
    next
      case (Some qe)
      obtain evs s1 where m: "h3_map_quic_event (h3_call_engine s NextEvent) qe = (evs, s1)"
        by (cases "h3_map_quic_event (h3_call_engine s NextEvent) qe")
      let ?n = "h3_extend (snd (h3_map_quic_event s qe)) (fst (h3_map_quic_event s qe))"
      let ?s2 = "h3_call_engine (h3_extend s1 evs) (HandleEvent qe)"
      from m h3_map_quic_event_ids[of "h3_call_engine s NextEvent" qe]
           h3_map_quic_event_ids[of s qe]
      have one: "connection_ids ?s2 = connection_ids ?n" by (cases qe) simp_all
      then have one': "connection_ids ?s2 = connection_ids (h3_map_quic_events s [qe])"
        by (simp add: case_prod_beta)
      show ?thesis
      proof (cases "on_handle_event eng (h3_quic s1) qe")
        case (Inl x)
        with Inr Some m step have "snd y = ?s2" by auto
        with one' show ?thesis by metis
      next
        case (Inr h3s)
        let ?s3 = "h3_extend ?s2 (concat (map h3_map_h3_event h3s))"
        from Inr \<open>on_next_event eng (h3_quic s) = Inr oe\<close> Some m step
        have "loop eng ?s3 = Some y" by simp
        from IH[OF this] obtain es where
          es: "connection_ids (snd y) = connection_ids (h3_map_quic_events ?s3 es)"
          by blast
        from one have "connection_ids ?s3 = connection_ids ?n" by simp
        from h3_map_quic_events_ids_cong[OF this, of es] es
        have "connection_ids (snd y) = connection_ids (h3_map_quic_events s (qe # es))"
          by (simp only: h3_map_quic_events_Cons)
        then show ?thesis by blast
      qed
    qed
  qed
qed

end
